theory Spec2Isabelle
  imports Main
begin

section \<open>The notebooks as data\<close>

text \<open>
  The repository consists of two Jupyter notebooks: \<^verbatim>\<open>netZooPy/dragon_tutorial.ipynb\<close>
  (Python) and \<^verbatim>\<open>netZooR/panda_gtex_tutorial_server.ipynb\<close> (R). Their code cells
  are transcribed below as abstract syntax, statement by statement and in the order of
  the source. A notebook is the list of its code cells, each paired with the 0-based
  position of the cell in the notebook's \<^verbatim>\<open>cells\<close> array (markdown cells are counted
  but not transcribed). Comments of the source are dropped.
\<close>

datatype expr =
    Num int                      \<comment> \<open>a literal without fraction: \<^verbatim>\<open>1000\<close>, \<^verbatim>\<open>0L\<close>\<close>
  | Dec string                   \<comment> \<open>a literal with a fraction, as written: \<^verbatim>\<open>0.005\<close>\<close>
  | Str string                   \<comment> \<open>a string literal (without its quotes)\<close>
  | Var string                   \<comment> \<open>an identifier, also \<^verbatim>\<open>TRUE\<close>, \<^verbatim>\<open>F\<close>, \<^verbatim>\<open>NA\<close>, \<^verbatim>\<open>pkg::name\<close>\<close>
  | Missing                      \<comment> \<open>an empty index slot, as in \<^verbatim>\<open>exp[rows,]\<close>\<close>
  | Call expr "expr list"        \<comment> \<open>\<^verbatim>\<open>f(a, b)\<close>\<close>
  | Named string expr            \<comment> \<open>a keyword argument \<^verbatim>\<open>name=value\<close>\<close>
  | Attr expr string             \<comment> \<open>Python \<^verbatim>\<open>x.name\<close>\<close>
  | Dollar expr string           \<comment> \<open>R \<^verbatim>\<open>x$name\<close>\<close>
  | Slot expr string             \<comment> \<open>R \<^verbatim>\<open>x@name\<close>\<close>
  | Index expr "expr list"       \<comment> \<open>\<^verbatim>\<open>x[i]\<close>, \<^verbatim>\<open>x[i, j]\<close>\<close>
  | Range expr expr              \<comment> \<open>R \<^verbatim>\<open>a:b\<close>, and a Python slice \<^verbatim>\<open>a:b\<close>\<close>
  | ListLit "expr list"          \<comment> \<open>Python \<^verbatim>\<open>[a, b]\<close>\<close>
  | TupleLit "expr list"         \<comment> \<open>Python \<^verbatim>\<open>a, b\<close> as an assignment target\<close>
  | BinOp string expr expr       \<comment> \<open>an infix operator applied by the notebook\<close>
  | UnOp string expr             \<comment> \<open>a prefix operator applied by the notebook\<close>
  | Lambda "string list" expr    \<comment> \<open>R \<^verbatim>\<open>function(x) body\<close>\<close>

datatype stmt =
    Assign expr expr                  \<comment> \<open>\<^verbatim>\<open>target = value\<close>, \<^verbatim>\<open>target <- value\<close>\<close>
  | Expr expr                         \<comment> \<open>an expression evaluated for its effect or display\<close>
  | If expr "stmt list" "stmt list"   \<comment> \<open>condition, then-branch, else-branch\<close>
  | For string expr "stmt list"       \<comment> \<open>\<^verbatim>\<open>for (v in e) body\<close>\<close>
  | Try "stmt list" "stmt list"       \<comment> \<open>Python \<^verbatim>\<open>try: body except: handler\<close>\<close>
  | Import string "string list"       \<comment> \<open>Python \<^verbatim>\<open>import m as a\<close>, \<^verbatim>\<open>from m import a, b\<close>\<close>

type_synonym cell = "stmt list"
type_synonym notebook = "(nat \<times> cell) list"

subsection \<open>\<^verbatim>\<open>netZooPy/dragon_tutorial.ipynb\<close>\<close>

definition dragon_c1 :: cell where
  "dragon_c1 =
    [Import ''netZooPy.dragon'' [''*''],
     Import ''matplotlib.pyplot'' [''plt''],
     Import ''numpy'' [''np''],
     Import ''mpl_toolkits.mplot3d'' [''Axes3D'', ''art3d'']]"

definition dragon_c3 :: cell where
  "dragon_c3 =
    [Assign (Var ''n'') (Num 1000),
     Assign (Var ''p1'') (Num 500),
     Assign (Var ''p2'') (Num 100)]"

definition dragon_c5 :: cell where
  "dragon_c5 =
    [Assign (TupleLit [Var ''X1'', Var ''X2'', Var ''Theta'', Var ''_''])
       (Call (Var ''simulate_dragon_data'')
          [Named ''eta11'' (Dec ''0.005''), Named ''eta12'' (Dec ''0.005''),
           Named ''eta22'' (Dec ''0.05''),
           Named ''p1'' (Num 100), Named ''p2'' (Num 500),
           Named ''epsilon'' (ListLit [Dec ''0.1'', Dec ''0.1'']),
           Named ''n'' (Var ''n''), Named ''seed'' (Num 123)])]"

definition dragon_c7 :: cell where
  "dragon_c7 =
    [Assign (Var ''X1'') (Call (Var ''Scale'') [Var ''X1'']),
     Assign (Var ''X2'') (Call (Var ''Scale'') [Var ''X2'']),
     Expr (Attr (Var ''X1'') ''shape''),
     Expr (Attr (Var ''X2'') ''shape'')]"

definition dragon_c9 :: cell where
  "dragon_c9 =
    [Assign (TupleLit [Var ''lambdas'', Var ''lambdas_landscape''])
       (Call (Var ''estimate_penalty_parameters_dragon'') [Var ''X1'', Var ''X2'']),
     Expr (Call (Var ''print'') [Var ''lambdas''])]"

definition dragon_c11 :: cell where
  "dragon_c11 =
    [Assign (Var ''fig'') (Call (Attr (Var ''plt'') ''figure'') []),
     Assign (Var ''ax'')
       (Call (Attr (Var ''plt'') ''axes'') [Named ''projection'' (Str ''3d'')]),
     Assign (Var ''x'')
       (Call (Attr (Var ''np'') ''arange'') [Num 0, Dec ''1.01'', Dec ''0.01'']),
     Expr (Call (Attr (Var ''ax'') ''contour3D'')
       [Var ''x'', Var ''x'', Var ''lambdas_landscape'', Num 50,
        Named ''cmap'' (Str ''binary'')]),
     Assign (Var ''ind'')
       (Call (Attr (Var ''np'') ''unravel_index'')
          [Call (Attr (Var ''np'') ''argmin'')
             [Var ''lambdas_landscape'', Named ''axis'' (Var ''None'')],
           Attr (Var ''lambdas_landscape'') ''shape'']),
     Expr (Call (Attr (Var ''ax'') ''plot'')
       [ListLit [Index (Var ''x'')
                   [Call (Var ''int'') [Index (Var ''ind'') [Num 1]]]],
        ListLit [Index (Var ''x'')
                   [Call (Var ''int'') [Index (Var ''ind'') [Num 0]]]],
        ListLit [Index (Var ''lambdas_landscape'')
                   [Call (Var ''int'') [Index (Var ''ind'') [Num 0]],
                    Call (Var ''int'') [Index (Var ''ind'') [Num 1]]]],
        Named ''markerfacecolor'' (Str ''k''), Named ''markeredgecolor'' (Str ''r''),
        Named ''marker'' (Str ''o''), Named ''markersize'' (Num 7),
        Named ''alpha'' (Num 1)]),
     Expr (Call (Attr (Var ''ax'') ''set_xlabel'')
       [Str (''$'' @ [CHR 0x5C] @ ''lambda_1$''), Named ''fontsize'' (Num 16)]),
     Expr (Call (Attr (Var ''ax'') ''set_ylabel'')
       [Str (''$'' @ [CHR 0x5C] @ ''lambda_2$''), Named ''labelpad'' (Num 15),
        Named ''fontsize'' (Num 16)]),
     Expr (Call (Attr (Var ''plt'') ''show'') [])]"

definition dragon_c13 :: cell where
  "dragon_c13 =
    [Assign (Var ''r'')
       (Call (Var ''get_partial_correlation_dragon'')
          [Var ''X1'', Var ''X2'', Var ''lambdas'']),
     Expr (Attr (Var ''r'') ''shape'')]"

definition dragon_c16 :: cell where
  "dragon_c16 =
    [Assign (TupleLit [Var ''adj_p_vals'', Var ''p_vals''])
       (Call (Var ''estimate_p_values_dragon'')
          [Var ''r'', Var ''n'', Var ''p1'', Var ''p2'', Var ''lambdas''])]"

definition dragon_c19 :: cell where
  "dragon_c19 =
    [Expr (Call (Attr (Var ''plt'') ''imshow'')
       [Index (Var ''Theta'') [Range (Num 0) (Num 20), Range (Num 0) (Num 20)]]),
     Expr (Call (Attr (Var ''plt'') ''colorbar'') []),
     Expr (Call (Attr (Var ''plt'') ''show'') [])]"

definition dragon_c21 :: cell where
  "dragon_c21 =
    [Expr (Call (Attr (Var ''plt'') ''imshow'')
       [Index (Var ''adj_p_vals'') [Range (Num 0) (Num 20), Range (Num 0) (Num 20)]]),
     Expr (Call (Attr (Var ''plt'') ''colorbar'') []),
     Expr (Call (Attr (Var ''plt'') ''show'') [])]"

definition dragon_notebook :: notebook where
  "dragon_notebook =
    [(1, dragon_c1), (3, dragon_c3), (5, dragon_c5), (7, dragon_c7), (9, dragon_c9),
     (11, dragon_c11), (13, dragon_c13), (16, dragon_c16), (19, dragon_c19),
     (21, dragon_c21)]"

subsection \<open>\<^verbatim>\<open>netZooR/panda_gtex_tutorial_server.ipynb\<close>\<close>

definition panda_c1 :: cell where
  "panda_c1 = [Assign (Var ''runserver'') (Num 1)]"

definition panda_c3 :: cell where
  "panda_c3 =
    [If (BinOp ''=='' (Var ''runserver'') (Num 0))
       [Expr (Call (Var ''install.packages'') [Str ''devtools'']),
        Expr (Call (Var ''library'') [Var ''devtools'']),
        Expr (Call (Var ''devtools::install_github'')
          [Str ''netZoo/netZooR'', Named ''build_vignettes'' (Var ''FALSE'')]),
        If (UnOp ''!'' (Call (Var ''requireNamespace'')
              [Str ''BiocManager'', Named ''quietly'' (Var ''TRUE'')]))
          [Expr (Call (Var ''install.packages'')
             [Str ''BiocManager'', Named ''repos'' (Str ''http://cran.us.r-project.org'')])]
          [],
        Expr (Call (Var ''BiocManager::install'') [Str ''fgsea'']),
        Expr (Call (Var ''install.packages'') [Str ''ggplot2'']),
        Expr (Call (Var ''install.packages'') [Str ''reshape2''])]
       []]"

definition panda_c5 :: cell where
  "panda_c5 =
    [If (BinOp ''=='' (Var ''runserver'') (Num 1))
       [Assign (Var ''ppath'') (Str ''/opt/data/'')]
       [If (BinOp ''=='' (Var ''runserver'') (Num 0))
          [Assign (Var ''ppath'') (Str '''')]
          []]]"

definition panda_c7 :: cell where
  "panda_c7 =
    [Expr (Call (Var ''library'') [Str ''netZooR'']),
     Expr (Call (Var ''library'') [Str ''fgsea'']),
     Expr (Call (Var ''library'') [Str ''ggplot2'']),
     Expr (Call (Var ''library'') [Str ''reshape2'']),
     Expr (Call (Var ''library'') [Str ''visNetwork''])]"

definition panda_c9 :: cell where
  "panda_c9 =
    [Assign (Var ''motif'')
       (Call (Var ''read.delim'')
          [Call (Var ''paste0'') [Var ''ppath'', Str ''motif_subset.txt''],
           Named ''stringsAsFactors'' (Var ''F''), Named ''header'' (Var ''F'')]),
     Expr (Index (Var ''motif'') [Range (Num 1) (Num 5), Missing])]"

definition panda_c11 :: cell where
  "panda_c11 =
    [Assign (Var ''ppi'')
       (Call (Var ''read.delim'')
          [Call (Var ''paste0'') [Var ''ppath'', Str ''ppi_subset.txt''],
           Named ''stringsAsFactors'' (Var ''F''), Named ''header'' (Var ''F'')]),
     Expr (Index (Var ''ppi'') [Range (Num 1) (Num 5), Missing])]"

definition panda_c13 :: cell where
  "panda_c13 =
    [Assign (Var ''exp'')
       (Call (Var ''read.delim'')
          [Call (Var ''paste0'')
             [Var ''ppath'', Str ''expression_tpm_lcl_blood_subset.txt''],
           Named ''stringsAsFactors'' (Var ''F''), Named ''check.names'' (Var ''F'')])]"

definition panda_c15 :: cell where
  "panda_c15 =
    [Assign (Var ''exp'') (Call (Var ''log2'') [BinOp ''+'' (Var ''exp'') (Num 1)])]"

definition panda_c17 :: cell where
  "panda_c17 =
    [Assign (Var ''zero_na_counts'')
       (Call (Var ''apply'')
          [Var ''exp'', Named ''MARGIN'' (Num 1),
           Named ''FUN''
             (Lambda [''x'']
                (Call (Var ''length'')
                   [Index (Var ''x'')
                      [BinOp ''&''
                         (UnOp ''!'' (Call (Var ''is.na'') [Var ''x'']))
                         (BinOp ''!='' (Var ''x'') (Num 0))]]))])]"

definition panda_c19 :: cell where
  "panda_c19 =
    [Assign (Var ''exp'')
       (Index (Var ''exp'') [BinOp ''>'' (Var ''zero_na_counts'') (Num 20), Missing])]"

definition panda_c21 :: cell where
  "panda_c21 =
    [Assign (Var ''lcl_samples'')
       (Call (Var ''read.delim'')
          [Call (Var ''paste0'') [Var ''ppath'', Str ''LCL_samples.txt''],
           Named ''header'' (Var ''FALSE''), Named ''stringsAsFactors'' (Var ''FALSE'')])]"

definition panda_c23 :: cell where
  "panda_c23 =
    [Assign (Var ''lcl_exp'')
       (Index (Var ''exp'')
          [Missing,
           BinOp ''%in%'' (Call (Var ''colnames'') [Var ''exp''])
             (Index (Var ''lcl_samples'') [Missing, Num 1])])]"

definition panda_c25 :: cell where
  "panda_c25 =
    [Assign (Var ''wblood_samples'')
       (Call (Var ''read.delim'')
          [Call (Var ''paste0'') [Var ''ppath'', Str ''WholeBlood_samples.txt''],
           Named ''header'' (Var ''FALSE''), Named ''stringsAsFactors'' (Var ''FALSE'')])]"

definition panda_c27 :: cell where
  "panda_c27 =
    [Assign (Var ''wb_exp'')
       (Index (Var ''exp'')
          [Missing,
           BinOp ''%in%'' (Call (Var ''colnames'') [Var ''exp''])
             (Index (Var ''wblood_samples'') [Missing, Num 1])])]"

definition panda_c29 :: cell where
  "panda_c29 =
    [Assign (Var ''pandaLCL'')
       (Call (Var ''panda'')
          [Var ''motif'', Var ''lcl_exp'', Var ''ppi'',
           Named ''mode'' (Str ''intersection'')]),
     Expr (Var ''pandaLCL'')]"

definition panda_c31 :: cell where
  "panda_c31 =
    [Assign (Var ''pandaWB'')
       (Call (Var ''panda'')
          [Var ''motif'', Var ''wb_exp'', Var ''ppi'',
           Named ''mode'' (Str ''intersection'')]),
     Expr (Var ''pandaWB'')]"

definition panda_c33 :: cell where
  "panda_c33 =
    [Assign (Var ''regNetLCL'') (Slot (Var ''pandaLCL'') ''regNet''),
     Assign (Var ''regNetWB'') (Slot (Var ''pandaWB'') ''regNet''),
     Expr (Index (Var ''regNetLCL'') [Range (Num 1) (Num 5), Range (Num 1) (Num 5)])]"

definition panda_c37 :: cell where
  "panda_c37 =
    [Assign (Var ''nDiffs'') (Num 200),
     Assign (Var ''diffNet'') (Slot (Var ''pandaLCL'') ''regNet''),
     Assign (Var ''nTFs'') (Index (Call (Var ''dim'') [Var ''diffNet'']) [Num 1])]"

definition panda_c39 :: cell where
  "panda_c39 =
    [Assign (Var ''edges'') (Call (Var ''matrix'') [Num 0, Var ''nDiffs'', Num 3]),
     Assign (Call (Var ''colnames'') [Var ''edges''])
       (Call (Var ''c'') [Str ''from'', Str ''to'', Str ''value'']),
     Assign (Var ''edges'') (Call (Var ''as.data.frame'') [Var ''edges'']),
     Assign (Var ''aa'')
       (Call (Var ''order'')
          [Call (Var ''as.matrix'') [Call (Var ''abs'') [Var ''diffNet'']],
           Named ''decreasing'' (Var ''TRUE'')]),
     Assign (Var ''bb'')
       (Call (Var ''sort'')
          [Call (Var ''as.matrix'') [Call (Var ''abs'') [Var ''diffNet'']],
           Named ''decreasing'' (Var ''TRUE'')]),
     Assign (Dollar (Var ''edges'') ''value'')
       (Index (Call (Var ''as.matrix'') [Var ''diffNet''])
          [Index (Var ''aa'') [Range (Num 1) (Var ''nDiffs'')]]),
     Assign (Var ''geneIdsTop'')
       (BinOp ''+''
          (BinOp ''%/%'' (Index (Var ''aa'') [Range (Num 1) (Var ''nDiffs'')])
             (Index (Call (Var ''dim'') [Var ''diffNet'']) [Num 1]))
          (Num 1)),
     Assign (Var ''tfIdsTop'')
       (BinOp ''%%'' (Index (Var ''aa'') [Range (Num 1) (Var ''nDiffs'')])
          (Index (Call (Var ''dim'') [Var ''diffNet'']) [Num 1])),
     Assign (Index (Var ''tfIdsTop'') [BinOp ''=='' (Var ''tfIdsTop'') (Num 0)])
       (Var ''nTFs''),
     Assign (Dollar (Var ''edges'') ''to'')
       (Index (Call (Var ''colnames'') [Var ''diffNet'']) [Var ''geneIdsTop'']),
     Assign (Dollar (Var ''edges'') ''from'')
       (Index (Call (Var ''rownames'') [Var ''diffNet'']) [Var ''tfIdsTop'']),
     Assign (Dollar (Var ''edges'') ''arrows'') (Str ''to''),
     Assign (Dollar (Var ''edges'') ''value'') (Dollar (Var ''edges'') ''value'')]"

definition panda_c41 :: cell where
  "panda_c41 =
    [Assign (Var ''nodes'')
       (Call (Var ''data.frame'')
          [Named ''id''
             (Call (Var ''unique'')
                [Call (Var ''as.vector'')
                   [Call (Var ''as.matrix'')
                      [Index (Var ''edges'')
                         [Missing, Call (Var ''c'') [Num 1, Num 2]]]]]),
           Named ''label''
             (Call (Var ''unique'')
                [Call (Var ''as.vector'')
                   [Call (Var ''as.matrix'')
                      [Index (Var ''edges'')
                         [Missing, Call (Var ''c'') [Num 1, Num 2]]]]])]),
     Assign (Dollar (Var ''nodes'') ''group'')
       (Call (Var ''ifelse'')
          [BinOp ''%in%'' (Dollar (Var ''nodes'') ''id'') (Dollar (Var ''edges'') ''from''),
           Str ''TF'', Str ''gene''])]"

definition panda_c43 :: cell where
  "panda_c43 =
    [Assign (Var ''net'')
       (Call (Var ''visNetwork'')
          [Var ''nodes'', Var ''edges'', Named ''width'' (Str ''100%'')]),
     Assign (Var ''net'')
       (Call (Var ''visGroups'')
          [Var ''net'', Named ''groupname'' (Str ''TF''), Named ''shape'' (Str ''triangle''),
           Named ''color''
             (Call (Var ''list'')
                [Named ''background'' (Str ''purple''), Named ''border'' (Str ''black'')])]),
     Assign (Var ''net'')
       (Call (Var ''visGroups'')
          [Var ''net'', Named ''groupname'' (Str ''gene''), Named ''shape'' (Str ''dot''),
           Named ''color''
             (Call (Var ''list'')
                [Named ''background'' (Str ''teal''), Named ''border'' (Str ''black'')])]),
     Expr (Call (Var ''visLegend'')
       [Var ''net'', Named ''main'' (Str ''Legend''), Named ''position'' (Str ''right''),
        Named ''ncol'' (Num 1)])]"

definition panda_c45 :: cell where
  "panda_c45 =
    [Assign (Var ''nDiffs'') (Num 200),
     Assign (Var ''diffNet'')
       (BinOp ''-'' (Slot (Var ''pandaLCL'') ''regNet'') (Slot (Var ''pandaWB'') ''regNet''))]"

definition panda_c47 :: cell where
  "panda_c47 =
    [Assign (Var ''edges'') (Call (Var ''matrix'') [Num 0, Var ''nDiffs'', Num 3]),
     Assign (Call (Var ''colnames'') [Var ''edges''])
       (Call (Var ''c'') [Str ''from'', Str ''to'', Str ''value'']),
     Assign (Var ''edges'') (Call (Var ''as.data.frame'') [Var ''edges'']),
     Assign (Var ''aa'')
       (Call (Var ''order'')
          [Call (Var ''as.matrix'') [Call (Var ''abs'') [Var ''diffNet'']],
           Named ''decreasing'' (Var ''TRUE'')]),
     Assign (Var ''bb'')
       (Call (Var ''sort'')
          [Call (Var ''as.matrix'') [Call (Var ''abs'') [Var ''diffNet'']],
           Named ''decreasing'' (Var ''TRUE'')]),
     Assign (Dollar (Var ''edges'') ''value'')
       (Index (Call (Var ''as.matrix'') [Var ''diffNet''])
          [Index (Var ''aa'') [Range (Num 1) (Var ''nDiffs'')]]),
     Assign (Var ''geneIdsTop'')
       (BinOp ''+''
          (BinOp ''%/%'' (Index (Var ''aa'') [Range (Num 1) (Var ''nDiffs'')])
             (Index (Call (Var ''dim'') [Var ''diffNet'']) [Num 1]))
          (Num 1)),
     Assign (Var ''tfIdsTop'')
       (BinOp ''%%'' (Index (Var ''aa'') [Range (Num 1) (Var ''nDiffs'')])
          (Index (Call (Var ''dim'') [Var ''diffNet'']) [Num 1])),
     Assign (Index (Var ''tfIdsTop'') [BinOp ''=='' (Var ''tfIdsTop'') (Num 0)])
       (Var ''nTFs''),
     Assign (Dollar (Var ''edges'') ''to'')
       (Index (Call (Var ''colnames'') [Var ''diffNet'']) [Var ''geneIdsTop'']),
     Assign (Dollar (Var ''edges'') ''from'')
       (Index (Call (Var ''rownames'') [Var ''diffNet'']) [Var ''tfIdsTop'']),
     Assign (Dollar (Var ''edges'') ''arrows'') (Str ''to''),
     Assign (Dollar (Var ''edges'') ''color'')
       (Call (Var ''ifelse'')
          [BinOp ''>'' (Dollar (Var ''edges'') ''value'') (Num 0),
           Str ''green'', Str ''red'']),
     Assign (Dollar (Var ''edges'') ''value'')
       (Call (Var ''abs'') [Dollar (Var ''edges'') ''value''])]"

text \<open>Cells 49 and 51 of the source repeat cells 41 and 43 character by character.\<close>

definition panda_c49 :: cell where
  "panda_c49 = panda_c41"

definition panda_c51 :: cell where
  "panda_c51 = panda_c43"

definition panda_c53 :: cell where
  "panda_c53 =
    [Assign (Var ''lcl_outdegree'')
       (Call (Var ''calcDegree'') [Var ''pandaLCL'', Named ''type'' (Str ''tf'')]),
     Assign (Var ''wb_outdegree'')
       (Call (Var ''calcDegree'') [Var ''pandaWB'', Named ''type'' (Str ''tf'')])]"

definition panda_c55 :: cell where
  "panda_c55 =
    [Assign (Var ''lcl_indegree'')
       (Call (Var ''calcDegree'') [Var ''pandaLCL'', Named ''type'' (Str ''gene'')]),
     Assign (Var ''wb_indegree'')
       (Call (Var ''calcDegree'') [Var ''pandaWB'', Named ''type'' (Str ''gene'')])]"

definition panda_c57 :: cell where
  "panda_c57 =
    [Assign (Var ''degreeDiff'')
       (Call (Var ''calcDegreeDifference'')
          [Var ''pandaLCL'', Var ''pandaWB'', Named ''type'' (Str ''gene'')]),
     Expr (Call (Var ''head'') [Var ''degreeDiff''])]"

definition panda_c59 :: cell where
  "panda_c59 =
    [Assign (Var ''pathways'')
       (Call (Var ''gmtPathways'')
          [Call (Var ''paste0'') [Var ''ppath'', Str ''c2.cp.kegg.v7.0.symbols.gmt'']])]"

definition panda_c61 :: cell where
  "panda_c61 =
    [Assign (Var ''degreeDiff_all'')
       (Call (Var ''read.delim'')
          [Call (Var ''paste0'') [Var ''ppath'', Str ''lclWB_indegreeDifference.rnk''],
           Named ''stringsAsFactors'' (Var ''F''), Named ''header'' (Var ''F'')]),
     Assign (Var ''degreeDiff_all'')
       (Call (Var ''setNames'')
          [Index (Var ''degreeDiff_all'') [Missing, Num 2],
           Index (Var ''degreeDiff_all'') [Missing, Num 1]])]"

definition panda_c63 :: cell where
  "panda_c63 =
    [Assign (Var ''fgseaRes'')
       (Call (Var ''fgsea'')
          [Var ''pathways'', Var ''degreeDiff_all'', Named ''minSize'' (Num 15),
           Named ''maxSize'' (Num 500), Named ''nperm'' (Num 1000)]),
     Expr (Call (Var ''head'') [Var ''fgseaRes''])]"

definition panda_c65 :: cell where
  "panda_c65 =
    [Assign (Var ''sig'')
       (Index (Var ''fgseaRes'')
          [BinOp ''<'' (Dollar (Var ''fgseaRes'') ''padj'') (Dec ''0.05''), Missing])]"

definition panda_c67 :: cell where
  "panda_c67 =
    [Expr (Index (Var ''sig'')
       [Index (Call (Var ''order'') [Dollar (Var ''sig'') ''NES''])
          [Range (Num 1) (Num 10)],
        Missing])]"

definition panda_c69 :: cell where
  "panda_c69 =
    [Assign (Var ''dat'') (Call (Var ''data.frame'') [Var ''fgseaRes'']),
     Assign (Var ''fdrcut'') (Dec ''0.05''),
     Assign (Var ''dencol_neg'') (Str ''blue''),
     Assign (Var ''dencol_pos'') (Str ''red''),
     Assign (Var ''signnamelength'') (Num 4),
     Assign (Var ''asp'') (Num 3),
     Assign (Var ''charcut'') (Num 100)]"

definition panda_c71 :: cell where
  "panda_c71 =
    [Assign (Var ''a'') (Call (Var ''as.character'') [Dollar (Var ''dat'') ''pathway'']),
     For ''j'' (Range (Num 1) (Call (Var ''length'') [Var ''a'']))
       [Assign (Index (Var ''a'') [Var ''j''])
          (Call (Var ''substr'')
             [Index (Var ''a'') [Var ''j''],
              BinOp ''+'' (Var ''signnamelength'') (Num 2),
              Call (Var ''nchar'') [Index (Var ''a'') [Var ''j'']]])],
     Assign (Var ''a'') (Call (Var ''tolower'') [Var ''a'']),
     For ''j'' (Range (Num 1) (Call (Var ''length'') [Var ''a'']))
       [If (BinOp ''>'' (Call (Var ''nchar'') [Index (Var ''a'') [Var ''j'']])
              (Var ''charcut''))
          [Assign (Index (Var ''a'') [Var ''j''])
             (Call (Var ''paste'')
                [Call (Var ''substr'') [Index (Var ''a'') [Var ''j''], Num 1, Var ''charcut''],
                 Str ''...'', Named ''sep'' (Str '' '')])]
          []],
     Assign (Var ''a'') (Call (Var ''gsub'') [Str ''_'', Str '' '', Var ''a'']),
     Assign (Dollar (Var ''dat'') ''NAME'') (Var ''a'')]"

definition panda_c73 :: cell where
  "panda_c73 =
    [Assign (Var ''dat2'')
       (Index (Var ''dat'')
          [BinOp ''<'' (Index (Var ''dat'') [Missing, Str ''padj'']) (Var ''fdrcut''),
           Missing]),
     Assign (Var ''dat2'')
       (Index (Var ''dat2'')
          [Call (Var ''order'') [Index (Var ''dat2'') [Missing, Str ''padj'']], Missing]),
     Assign (Dollar (Var ''dat2'') ''signature'')
       (Call (Var ''factor'')
          [Dollar (Var ''dat2'') ''NAME'',
           Call (Var ''rev'') [Call (Var ''as.character'') [Dollar (Var ''dat2'') ''NAME'']]])]"

definition panda_c75 :: cell where
  "panda_c75 =
    [Assign (Var ''sign_neg'')
       (Call (Var ''which'')
          [BinOp ''<'' (Index (Var ''dat2'') [Missing, Str ''NES'']) (Num 0)]),
     Assign (Var ''sign_pos'')
       (Call (Var ''which'')
          [BinOp ''>'' (Index (Var ''dat2'') [Missing, Str ''NES'']) (Num 0)])]"

definition panda_c77 :: cell where
  "panda_c77 =
    [Assign (Var ''signcol'')
       (Call (Var ''rep'')
          [Var ''NA'', Call (Var ''length'') [Dollar (Var ''dat2'') ''signature'']]),
     Assign (Index (Var ''signcol'') [Var ''sign_neg'']) (Var ''dencol_neg''),
     Assign (Index (Var ''signcol'') [Var ''sign_pos'']) (Var ''dencol_pos''),
     Assign (Var ''signcol'') (Call (Var ''rev'') [Var ''signcol''])]"

definition panda_c79 :: cell where
  "panda_c79 =
    [Assign (Var ''g'')
       (Call (Var ''ggplot'')
          [Var ''dat2'',
           Call (Var ''aes'')
             [Named ''x'' (Var ''padj''), Named ''y'' (Var ''signature''),
              Named ''size'' (Var ''size'')]]),
     Expr
       (BinOp ''+''
         (BinOp ''+''
           (BinOp ''+''
             (BinOp ''+''
               (BinOp ''+''
                 (BinOp ''+''
                   (BinOp ''+'' (Var ''g'')
                      (Call (Var ''geom_point'')
                         [Call (Var ''aes'') [Named ''fill'' (Var ''NES'')],
                          Named ''shape'' (Num 21), Named ''colour'' (Str ''white'')]))
                   (Call (Var ''theme_bw'') []))
                 (Call (Var ''xlim'') [Num 0, Var ''fdrcut'']))
               (Call (Var ''scale_size_area'')
                  [Named ''max_size'' (Num 10), Named ''guide'' (Str ''none'')]))
             (Call (Var ''scale_fill_gradient2'')
                [Named ''low'' (Var ''dencol_neg''), Named ''high'' (Var ''dencol_pos'')]))
           (Call (Var ''theme'')
              [Named ''axis.text.y''
                 (Call (Var ''element_text'') [Named ''colour'' (Var ''signcol'')])]))
         (Call (Var ''theme'')
            [Named ''aspect.ratio'' (Var ''asp''),
             Named ''axis.title.y'' (Call (Var ''element_blank'') [])]))]"

definition panda_notebook :: notebook where
  "panda_notebook =
    [(1, panda_c1), (3, panda_c3), (5, panda_c5), (7, panda_c7), (9, panda_c9),
     (11, panda_c11), (13, panda_c13), (15, panda_c15), (17, panda_c17),
     (19, panda_c19), (21, panda_c21), (23, panda_c23), (25, panda_c25),
     (27, panda_c27), (29, panda_c29), (31, panda_c31), (33, panda_c33),
     (37, panda_c37), (39, panda_c39), (41, panda_c41), (43, panda_c43),
     (45, panda_c45), (47, panda_c47), (49, panda_c49), (51, panda_c51),
     (53, panda_c53), (55, panda_c55), (57, panda_c57), (59, panda_c59),
     (61, panda_c61), (63, panda_c63), (65, panda_c65), (67, panda_c67),
     (69, panda_c69), (71, panda_c71), (73, panda_c73), (75, panda_c75),
     (77, panda_c77), (79, panda_c79)]"

section \<open>Reading the syntax\<close>

text \<open>All subexpressions of an expression, itself first, in source order.\<close>

fun subexprs :: "expr \<Rightarrow> expr list" where
  "subexprs (Call f as) = Call f as # subexprs f @ concat (map subexprs as)"
| "subexprs (Named n e) = Named n e # subexprs e"
| "subexprs (Attr e a) = Attr e a # subexprs e"
| "subexprs (Dollar e a) = Dollar e a # subexprs e"
| "subexprs (Slot e a) = Slot e a # subexprs e"
| "subexprs (Index e is) = Index e is # subexprs e @ concat (map subexprs is)"
| "subexprs (Range a b) = Range a b # subexprs a @ subexprs b"
| "subexprs (ListLit es) = ListLit es # concat (map subexprs es)"
| "subexprs (TupleLit es) = TupleLit es # concat (map subexprs es)"
| "subexprs (BinOp f a b) = BinOp f a b # subexprs a @ subexprs b"
| "subexprs (UnOp f a) = UnOp f a # subexprs a"
| "subexprs (Lambda ps b) = Lambda ps b # subexprs b"
| "subexprs (Num k) = [Num k]"
| "subexprs (Dec d) = [Dec d]"
| "subexprs (Str s) = [Str s]"
| "subexprs (Var v) = [Var v]"
| "subexprs Missing = [Missing]"

text \<open>All statements of a statement, itself first, and all expressions in it.\<close>

fun substmts :: "stmt \<Rightarrow> stmt list" where
  "substmts (If c a b) = If c a b # concat (map substmts a) @ concat (map substmts b)"
| "substmts (For v e b) = For v e b # concat (map substmts b)"
| "substmts (Try a b) = Try a b # concat (map substmts a) @ concat (map substmts b)"
| "substmts (Assign t v) = [Assign t v]"
| "substmts (Expr e) = [Expr e]"
| "substmts (Import m ns) = [Import m ns]"

fun stmt_exprs :: "stmt \<Rightarrow> expr list" where
  "stmt_exprs (Assign t v) = subexprs t @ subexprs v"
| "stmt_exprs (Expr e) = subexprs e"
| "stmt_exprs (If c a b) =
     subexprs c @ concat (map stmt_exprs a) @ concat (map stmt_exprs b)"
| "stmt_exprs (For v e b) = subexprs e @ concat (map stmt_exprs b)"
| "stmt_exprs (Try a b) = concat (map stmt_exprs a) @ concat (map stmt_exprs b)"
| "stmt_exprs (Import m ns) = []"

definition cell_stmts :: "cell \<Rightarrow> stmt list" where
  "cell_stmts c = concat (map substmts c)"

definition cell_exprs :: "cell \<Rightarrow> expr list" where
  "cell_exprs c = concat (map stmt_exprs c)"

text \<open>
  The name a call is made under: an identifier, or a dotted Python name such as
  \<^verbatim>\<open>plt.show\<close>.
\<close>

fun callee_name :: "expr \<Rightarrow> string" where
  "callee_name (Var f) = f"
| "callee_name (Attr e a) = callee_name e @ ''.'' @ a"
| "callee_name e = ''''"

fun called :: "expr \<Rightarrow> string list" where
  "called (Call f as) = [callee_name f]"
| "called e = []"

definition calls :: "cell \<Rightarrow> string list" where
  "calls c = concat (map called (cell_exprs c))"

definition notebook_calls :: "notebook \<Rightarrow> string list" where
  "notebook_calls nb = concat (map (\<lambda>ic. calls (snd ic)) nb)"

text \<open>The positions of the cells of a notebook that satisfy a predicate.\<close>

definition cells_where :: "(cell \<Rightarrow> bool) \<Rightarrow> notebook \<Rightarrow> nat list" where
  "cells_where P nb = map fst (filter (\<lambda>ic. P (snd ic)) nb)"

text \<open>A notebook run from top to bottom executes the statements of its cells in order.\<close>

definition notebook_program :: "notebook \<Rightarrow> stmt list" where
  "notebook_program nb = concat (map snd nb)"

subsection \<open>Control flow, operators and functions written in a cell\<close>

fun is_branch :: "stmt \<Rightarrow> bool" where
  "is_branch (If c a b) = True"
| "is_branch s = False"

fun is_loop :: "stmt \<Rightarrow> bool" where
  "is_loop (For v e b) = True"
| "is_loop s = False"

definition has_branch :: "cell \<Rightarrow> bool" where
  "has_branch c = list_ex is_branch (cell_stmts c)"

definition has_loop :: "cell \<Rightarrow> bool" where
  "has_loop c = list_ex is_loop (cell_stmts c)"

definition has_control_flow :: "cell \<Rightarrow> bool" where
  "has_control_flow c = (has_branch c \<or> has_loop c)"

fun operator_of :: "expr \<Rightarrow> string list" where
  "operator_of (BinOp f a b) = [f]"
| "operator_of (UnOp f a) = [f]"
| "operator_of e = []"

definition expr_operators :: "expr \<Rightarrow> string list" where
  "expr_operators e = concat (map operator_of (subexprs e))"

definition operators :: "cell \<Rightarrow> string list" where
  "operators c = concat (map operator_of (cell_exprs c))"

fun is_lambda :: "expr \<Rightarrow> bool" where
  "is_lambda (Lambda ps b) = True"
| "is_lambda e = False"

definition defines_function :: "cell \<Rightarrow> bool" where
  "defines_function c = list_ex is_lambda (cell_exprs c)"

text \<open>
  A cell has logic of its own when it contains a branch, a loop, a function definition
  or an operator application; otherwise it consists of imports, assignments, indexing
  (with ranges \<^verbatim>\<open>a:b\<close>), attribute access and calls of library routines only.
\<close>

definition has_own_logic :: "cell \<Rightarrow> bool" where
  "has_own_logic c = (has_control_flow c \<or> defines_function c \<or> operators c \<noteq> [])"

text \<open>R's integer division and remainder, the operators of index arithmetic.\<close>

definition index_arithmetic_operators :: "string list" where
  "index_arithmetic_operators = [''%/%'', ''%%'']"

definition has_index_arithmetic :: "cell \<Rightarrow> bool" where
  "has_index_arithmetic c = list_ex (List.member index_arithmetic_operators) (operators c)"

text \<open>The routines called inside the bodies of the loops of a cell.\<close>

fun loop_body :: "stmt \<Rightarrow> stmt list" where
  "loop_body (For v e b) = b"
| "loop_body s = []"

definition loop_calls :: "cell \<Rightarrow> string list" where
  "loop_calls c = concat (map (\<lambda>s. calls (loop_body s)) (cell_stmts c))"

subsection \<open>Stages of a notebook\<close>

text \<open>
  The library routines by stage. The data stage loads or simulates the tables; the
  analysis stage is the estimation of penalties, partial correlations and p-values
  (DRAGON) and the construction of networks, degrees and enrichment scores (PANDA);
  the display stage draws the figures.
\<close>

definition data_routines :: "string list" where
  "data_routines = [''simulate_dragon_data'', ''read.delim'', ''gmtPathways'']"

definition analysis_routines :: "string list" where
  "analysis_routines =
    [''estimate_penalty_parameters_dragon'', ''get_partial_correlation_dragon'',
     ''estimate_p_values_dragon'',
     ''panda'', ''calcDegree'', ''calcDegreeDifference'', ''fgsea'']"

definition display_routines :: "string list" where
  "display_routines = [''plt.show'', ''visLegend'', ''geom_point'']"

definition calls_any :: "string list \<Rightarrow> cell \<Rightarrow> bool" where
  "calls_any names c = list_ex (List.member names) (calls c)"

definition analysis_calls :: "notebook \<Rightarrow> string list" where
  "analysis_calls nb = filter (List.member analysis_routines) (notebook_calls nb)"

subsection \<open>Files read\<close>

text \<open>
  The routines that read a file named by their first argument. The path is written
  \<^verbatim>\<open>paste0(ppath, "name")\<close> in the source; the file is identified by the string literals
  of the path expression.
\<close>

definition file_readers :: "string list" where
  "file_readers =
    [''read.delim'', ''read.table'', ''read.csv'', ''readLines'', ''readRDS'', ''scan'',
     ''load'', ''source'', ''gmtPathways'',
     ''open'', ''np.load'', ''np.loadtxt'', ''np.genfromtxt'', ''pd.read_csv'']"

fun string_literal :: "expr \<Rightarrow> string" where
  "string_literal (Str s) = s"
| "string_literal e = ''''"

definition path_literal :: "expr \<Rightarrow> string" where
  "path_literal e = concat (map string_literal (subexprs e))"

fun file_read :: "expr \<Rightarrow> (string \<times> string) list" where
  "file_read (Call f (a # as)) =
     (if List.member file_readers (callee_name f)
      then [(callee_name f, path_literal a)] else [])"
| "file_read e = []"

definition files_read :: "notebook \<Rightarrow> (string \<times> string) list" where
  "files_read nb = concat (map file_read (concat (map stmt_exprs (notebook_program nb))))"

subsection \<open>Libraries loaded\<close>

text \<open>
  The modules a statement imports (Python) and the packages it attaches with
  \<^verbatim>\<open>library\<close> (R), and those of all statements of a notebook, nested ones included.
\<close>

fun loaded :: "stmt \<Rightarrow> string list" where
  "loaded (Import m ns) = [m]"
| "loaded (Expr (Call (Var f) [Str p])) = (if f = ''library'' then [p] else [])"
| "loaded (Expr (Call (Var f) [Var p])) = (if f = ''library'' then [p] else [])"
| "loaded s = []"

definition libraries :: "notebook \<Rightarrow> string list" where
  "libraries nb = concat (map loaded (concat (map substmts (notebook_program nb))))"

text \<open>Modules, packages and routines that start threads, processes or asynchronous tasks.\<close>

definition concurrency_libraries :: "string list" where
  "concurrency_libraries =
    [''threading'', ''multiprocessing'', ''asyncio'', ''concurrent.futures'', ''subprocess'',
     ''joblib'', ''parallel'', ''foreach'', ''doParallel'', ''future'', ''BiocParallel'',
     ''snow'', ''callr'']"

definition concurrency_routines :: "string list" where
  "concurrency_routines =
    [''mclapply'', ''parLapply'', ''makeCluster'', ''mcparallel'', ''system'', ''system2'',
     ''os.fork'', ''os.system'']"

subsection \<open>Error handling written in a cell\<close>

fun is_try :: "stmt \<Rightarrow> bool" where
  "is_try (Try a h) = True"
| "is_try s = False"

definition error_handling_routines :: "string list" where
  "error_handling_routines =
    [''tryCatch'', ''try'', ''withCallingHandlers'', ''withRestarts'', ''on.exit'',
     ''stop'', ''warning'', ''signalCondition'', ''stopifnot'', ''retry'']"

definition handles_errors :: "cell \<Rightarrow> bool" where
  "handles_errors c =
     (list_ex is_try (cell_stmts c) \<or> calls_any error_handling_routines c)"

section \<open>Where a value comes from\<close>

text \<open>
  The history of a straight-line run: for every assignment executed so far the variable
  assigned and the expression assigned to it, most recent first. A variable assigned
  under a branch or a loop is recorded without an expression (its value depends on the
  path taken).
  \<^item> The \<open>i\<close>-th target of a Python tuple assignment receives component \<open>i\<close> of the value.
  \<^item> An R replacement \<^verbatim>\<open>x[i] <- v\<close>, \<^verbatim>\<open>x$a <- v\<close>, \<^verbatim>\<open>f(x) <- v\<close> updates \<open>x\<close> in
    place; the new \<open>x\<close> is recorded as the replacement applied to the old one.
\<close>

type_synonym history = "(string \<times> expr option) list"

fun targets :: "expr \<Rightarrow> string list" where
  "targets (Var v) = [v]"
| "targets (TupleLit es) = concat (map targets es)"
| "targets (Index e is) = targets e"
| "targets (Dollar e a) = targets e"
| "targets (Slot e a) = targets e"
| "targets (Attr e a) = targets e"
| "targets (Call f (a # as)) = targets a"
| "targets e = []"

fun assigned :: "stmt \<Rightarrow> string list" where
  "assigned (Assign t v) = targets t"
| "assigned (If c a b) = concat (map assigned a) @ concat (map assigned b)"
| "assigned (For v e b) = v # concat (map assigned b)"
| "assigned (Try a h) = concat (map assigned a) @ concat (map assigned h)"
| "assigned (Expr e) = []"
| "assigned (Import m ns) = []"

fun components :: "expr list \<Rightarrow> nat \<Rightarrow> expr \<Rightarrow> history" where
  "components [] i v = []"
| "components (Var x # ts) i v = components ts (Suc i) v @ [(x, Some (Index v [Num (int i)]))]"
| "components (t # ts) i v = components ts (Suc i) v @ map (\<lambda>x. (x, None)) (targets t)"

fun record_assign :: "expr \<Rightarrow> expr \<Rightarrow> history" where
  "record_assign (Var x) v = [(x, Some v)]"
| "record_assign (TupleLit ts) v = components ts 0 v"
| "record_assign t v = map (\<lambda>x. (x, Some (BinOp ''<-'' t v))) (targets t)"

fun record_stmt :: "stmt \<Rightarrow> history \<Rightarrow> history" where
  "record_stmt (Assign t v) h = record_assign t v @ h"
| "record_stmt (Expr e) h = h"
| "record_stmt (Import m ns) h = h"
| "record_stmt s h = map (\<lambda>x. (x, None)) (assigned s) @ h"

text \<open>The most recent entry of a variable, with the history before that entry.\<close>

fun lookup_rest :: "history \<Rightarrow> string \<Rightarrow> (expr option \<times> history) option" where
  "lookup_rest [] v = None"
| "lookup_rest ((k, d) # h) v = (if k = v then Some (d, h) else lookup_rest h v)"

lemma lookup_rest_shorter [termination_simp]:
  "lookup_rest h v = Some (d, h') \<Longrightarrow> length h' < length h"
  by (induction h) (auto split: if_splits)

text \<open>
  The derivation of an expression: every variable replaced by the expression last
  assigned to it, itself derived in the history before that assignment. Names of
  called routines and bodies of function definitions are left as written.
\<close>

function (sequential) derive :: "history \<Rightarrow> expr \<Rightarrow> expr" where
  "derive h (Var v) =
     (case lookup_rest h v of
        Some (Some d, h') \<Rightarrow> derive h' d
      | _ \<Rightarrow> Var v)"
| "derive h (Call f as) = Call f (map (derive h) as)"
| "derive h (Named n e) = Named n (derive h e)"
| "derive h (Attr e a) = Attr (derive h e) a"
| "derive h (Dollar e a) = Dollar (derive h e) a"
| "derive h (Slot e a) = Slot (derive h e) a"
| "derive h (Index e is) = Index (derive h e) (map (derive h) is)"
| "derive h (Range a b) = Range (derive h a) (derive h b)"
| "derive h (ListLit es) = ListLit (map (derive h) es)"
| "derive h (TupleLit es) = TupleLit (map (derive h) es)"
| "derive h (BinOp f a b) = BinOp f (derive h a) (derive h b)"
| "derive h (UnOp f a) = UnOp f (derive h a)"
| "derive h e = e"
  by pat_completeness auto
termination
proof (relation "measures [\<lambda>(h, e). length h, \<lambda>(h, e). size e]")
  have member_size: "size x \<le> size_list size xs" if "x \<in> set xs" for x :: expr and xs
    using that by (induction xs) auto
  show "((h, x), h, Call f as) \<in> measures [\<lambda>(h, e). length h, \<lambda>(h, e). size e]"
    if "x \<in> set as" for h :: history and f as x
    using member_size [OF that] by simp
  show "((h, x), h, Index e js) \<in> measures [\<lambda>(h, e). length h, \<lambda>(h, e). size e]"
    if "x \<in> set js" for h :: history and e js x
    using member_size [OF that] by simp
  show "((h, x), h, ListLit es) \<in> measures [\<lambda>(h, e). length h, \<lambda>(h, e). size e]"
    if "x \<in> set es" for h :: history and es x
    using member_size [OF that] by simp
  show "((h, x), h, TupleLit es) \<in> measures [\<lambda>(h, e). length h, \<lambda>(h, e). size e]"
    if "x \<in> set es" for h :: history and es x
    using member_size [OF that] by simp
qed (auto simp: lookup_rest_shorter)

text \<open>
  The arguments of every call of routine \<open>f\<close> made by the top-level statements of a
  program, in order, each derived in the history at the point of the call.
\<close>

fun derived_args :: "string \<Rightarrow> history \<Rightarrow> expr \<Rightarrow> expr list list" where
  "derived_args f h (Call g as) = (if callee_name g = f then [map (derive h) as] else [])"
| "derived_args f h e = []"

fun call_sites :: "string \<Rightarrow> history \<Rightarrow> stmt list \<Rightarrow> expr list list" where
  "call_sites f h [] = []"
| "call_sites f h (s # ss) =
     concat (map (derived_args f h) (stmt_exprs s)) @ call_sites f (record_stmt s h) ss"

fun is_named :: "expr \<Rightarrow> bool" where
  "is_named (Named n e) = True"
| "is_named e = False"

fun is_literal :: "expr \<Rightarrow> bool" where
  "is_literal (Num k) = True"
| "is_literal (Dec d) = True"
| "is_literal (Str s) = True"
| "is_literal e = False"

definition positional :: "expr list \<Rightarrow> expr list" where
  "positional as = filter (\<lambda>a. \<not> is_named a) as"

fun keyword :: "string \<Rightarrow> expr \<Rightarrow> expr list" where
  "keyword n (Named m e) = (if m = n then [e] else [])"
| "keyword n e = []"

definition named_arg :: "string \<Rightarrow> expr list \<Rightarrow> expr list" where
  "named_arg n as = concat (map (keyword n) as)"

text \<open>The tables or objects handed to a call: its positional arguments but literals.\<close>

definition table_args :: "expr list \<Rightarrow> expr list" where
  "table_args as = filter (\<lambda>a. \<not> is_literal a) (positional as)"

text \<open>
  A value is handed over as produced when its derivation is a call of a data or
  analysis routine, or a component of the result of such a call.
\<close>

fun as_produced :: "expr \<Rightarrow> bool" where
  "as_produced (Call f as) = List.member (data_routines @ analysis_routines) (callee_name f)"
| "as_produced (Index (Call f as) [Num i]) =
     List.member (data_routines @ analysis_routines) (callee_name f)"
| "as_produced e = False"

definition handover :: "string \<Rightarrow> notebook \<Rightarrow> bool list list" where
  "handover f nb =
     map (\<lambda>as. map as_produced (table_args as)) (call_sites f [] (notebook_program nb))"

text \<open>
  For every table handed to a call of routine \<open>f\<close>: the operators the notebook applied
  on the way to it, and the routine whose call it is the result of.
\<close>

definition handover_operators :: "string \<Rightarrow> notebook \<Rightarrow> string list list list" where
  "handover_operators f nb =
     map (\<lambda>as. map (\<lambda>a. remdups (expr_operators a)) (table_args as))
       (call_sites f [] (notebook_program nb))"

definition handover_routine :: "string \<Rightarrow> notebook \<Rightarrow> string list list list" where
  "handover_routine f nb =
     map (\<lambda>as. map called (table_args as)) (call_sites f [] (notebook_program nb))"

section \<open>The DRAGON notebook: shapes of the simulated layers\<close>

text \<open>
  The DRAGON routines belong to the netZooPy library, which is not part of the
  repository. What the notebook's own text says about them is all that is used here:
  markdown cell 6 says that \<^verbatim>\<open>simulate_dragon_data\<close> returns the layers \<^verbatim>\<open>X1\<close> and
  \<^verbatim>\<open>X2\<close> (the first two components of its result) with \<^verbatim>\<open>p1\<close> and \<^verbatim>\<open>p2\<close>
  variables in the columns; \<^verbatim>\<open>Scale\<close> standardises a table and keeps its shape; and
  \<^verbatim>\<open>estimate_p_values_dragon\<close> takes \<^verbatim>\<open>r, n, p1, p2, lambdas\<close> in this order (markdown
  cell 15 and the call itself).
\<close>

fun keyword_int :: "string \<Rightarrow> expr list \<Rightarrow> int option" where
  "keyword_int n as = (case named_arg n as of [Num k] \<Rightarrow> Some k | _ \<Rightarrow> None)"

fun columns :: "expr \<Rightarrow> int option" where
  "columns (Call f [x]) = (if callee_name f = ''Scale'' then columns x else None)"
| "columns (Index (Call f as) [Num i]) =
     (if callee_name f = ''simulate_dragon_data''
      then (if i = 0 then keyword_int ''p1'' as
            else if i = 1 then keyword_int ''p2'' as else None)
      else None)"
| "columns e = None"

text \<open>The \<^verbatim>\<open>p1\<close> and \<^verbatim>\<open>p2\<close> keyword arguments of every simulation call.\<close>

definition simulated_dimensions :: "notebook \<Rightarrow> (expr list \<times> expr list) list" where
  "simulated_dimensions nb =
     map (\<lambda>as. (named_arg ''p1'' as, named_arg ''p2'' as))
       (call_sites ''simulate_dragon_data'' [] (notebook_program nb))"

text \<open>
  The column counts of the two layers from which the partial correlations are
  computed: of the first two arguments of \<^verbatim>\<open>get_partial_correlation_dragon\<close>.
\<close>

fun first_two_columns :: "expr list \<Rightarrow> (int option \<times> int option) list" where
  "first_two_columns (x1 # x2 # as) = [(columns x1, columns x2)]"
| "first_two_columns as = []"

definition layer_columns :: "notebook \<Rightarrow> (int option \<times> int option) list" where
  "layer_columns nb =
     concat (map first_two_columns
       (call_sites ''get_partial_correlation_dragon'' [] (notebook_program nb)))"

text \<open>The values that reach \<^verbatim>\<open>estimate_p_values_dragon\<close> as \<^verbatim>\<open>n\<close>, \<^verbatim>\<open>p1\<close> and \<^verbatim>\<open>p2\<close>.\<close>

fun n_p1_p2 :: "expr list \<Rightarrow> (expr \<times> expr \<times> expr) list" where
  "n_p1_p2 (r # n # p1 # p2 # as) = [(n, p1, p2)]"
| "n_p1_p2 as = []"

definition p_value_dimensions :: "notebook \<Rightarrow> (expr \<times> expr \<times> expr) list" where
  "p_value_dimensions nb =
     concat (map (\<lambda>as. n_p1_p2 (positional as))
       (call_sites ''estimate_p_values_dragon'' [] (notebook_program nb)))"

section \<open>The PANDA notebook: computations written in the cells\<close>

subsection \<open>Cells 17 and 19: rows with enough valid entries\<close>

text \<open>
  \<^verbatim>\<open>zero_na_counts <- apply(exp, MARGIN = 1, FUN = function(x) length(x[(!is.na(x) & x!=0)]))\<close>
  \<^verbatim>\<open>exp <- exp[zero_na_counts > 20,]\<close>

  The table is the list of its rows; an entry is \<open>None\<close> when it is \<^verbatim>\<open>NA\<close>. A logical
  value of R is \<open>None\<close> when it is \<^verbatim>\<open>NA\<close>.
\<close>

type_synonym r_logical = "bool option"

definition r_is_na :: "'a option \<Rightarrow> r_logical" where
  "r_is_na x = Some (x = None)"

fun r_not :: "r_logical \<Rightarrow> r_logical" where
  "r_not (Some b) = Some (\<not> b)"
| "r_not None = None"

fun r_and :: "r_logical \<Rightarrow> r_logical \<Rightarrow> r_logical" where
  "r_and (Some False) b = Some False"
| "r_and a (Some False) = Some False"
| "r_and (Some True) (Some True) = Some True"
| "r_and a b = None"

fun r_neq :: "'a option \<Rightarrow> 'a \<Rightarrow> r_logical" where
  "r_neq (Some x) c = Some (x \<noteq> c)"
| "r_neq None c = None"

fun r_greater :: "int option \<Rightarrow> int \<Rightarrow> r_logical" where
  "r_greater (Some x) c = Some (c < x)"
| "r_greater None c = None"

text \<open>
  Subsetting by a logical vector of the same length: an element is kept where the
  index is \<^verbatim>\<open>TRUE\<close>, dropped where it is \<^verbatim>\<open>FALSE\<close>, and a missing element (\<open>na\<close>)
  stands where it is \<^verbatim>\<open>NA\<close>.
\<close>

fun r_subset :: "'a \<Rightarrow> 'a list \<Rightarrow> r_logical list \<Rightarrow> 'a list" where
  "r_subset na (x # xs) (Some True # ms) = x # r_subset na xs ms"
| "r_subset na (x # xs) (Some False # ms) = r_subset na xs ms"
| "r_subset na (x # xs) (None # ms) = na # r_subset na xs ms"
| "r_subset na xs ms = []"

definition valid_mask :: "'a::zero option list \<Rightarrow> r_logical list" where
  "valid_mask x = map (\<lambda>v. r_and (r_not (r_is_na v)) (r_neq v 0)) x"

definition count_valid :: "'a::zero option list \<Rightarrow> int" where
  "count_valid x = int (length (r_subset None x (valid_mask x)))"

definition zero_na_counts :: "'a::zero option list list \<Rightarrow> int list" where
  "zero_na_counts exp = map count_valid exp"

definition na_row :: "'a option list list \<Rightarrow> 'a option list" where
  "na_row exp = replicate (case exp of [] \<Rightarrow> 0 | r # rs \<Rightarrow> length r) None"

definition keep_valid_rows :: "'a::zero option list list \<Rightarrow> 'a option list list" where
  "keep_valid_rows exp =
     r_subset (na_row exp) exp (map (\<lambda>c. r_greater (Some c) 20) (zero_na_counts exp))"

text \<open>
  The number of entries of a row that are neither \<^verbatim>\<open>NA\<close> nor zero, stated directly.
\<close>

definition valid_entries :: "'a::zero option list \<Rightarrow> nat" where
  "valid_entries x = length (filter (\<lambda>v. v \<noteq> None \<and> v \<noteq> Some 0) x)"

subsection \<open>Cells 39 and 47: the indices of the top edges\<close>

text \<open>
  \<^verbatim>\<open>geneIdsTop = (aa[1:nDiffs] %/% dim(diffNet)[1]) + 1\<close>
  \<^verbatim>\<open>tfIdsTop   = aa[1:nDiffs] %% dim(diffNet)[1]\<close>
  \<^verbatim>\<open>tfIdsTop[tfIdsTop == 0] = nTFs\<close>
  \<^verbatim>\<open>edges$to   = colnames(diffNet)[geneIdsTop]\<close>
  \<^verbatim>\<open>edges$from = rownames(diffNet)[tfIdsTop]\<close>

  \<open>aa\<close> holds 1-based positions in the column-major storage of the matrix; \<open>d\<close> is
  \<^verbatim>\<open>dim(diffNet)[1]\<close>, the number of rows. R's \<^verbatim>\<open>%/%\<close> and \<^verbatim>\<open>%%\<close> round towards minus
  infinity, as \<open>div\<close> and \<open>mod\<close> on \<open>int\<close> do. The operations work elementwise.
\<close>

definition geneIdsTop :: "int list \<Rightarrow> int \<Rightarrow> int list" where
  "geneIdsTop aa d = map (\<lambda>L. L div d + 1) aa"

definition tfIdsTop :: "int list \<Rightarrow> int \<Rightarrow> int \<Rightarrow> int list" where
  "tfIdsTop aa d nTFs = map (\<lambda>t. if t = 0 then nTFs else t) (map (\<lambda>L. L mod d) aa)"

text \<open>
  Indexing a vector of names by a positive position: the name at that position, and
  \<^verbatim>\<open>NA\<close> (\<open>None\<close>) beyond the end. The positions computed above are positive.
\<close>

definition r_index :: "'a list \<Rightarrow> int \<Rightarrow> 'a option" where
  "r_index xs i = (if 1 \<le> i \<and> i \<le> int (length xs) then Some (xs ! nat (i - 1)) else None)"

definition edges_to :: "string list \<Rightarrow> int list \<Rightarrow> int \<Rightarrow> string option list" where
  "edges_to colnames aa d = map (r_index colnames) (geneIdsTop aa d)"

definition edges_from :: "string list \<Rightarrow> int list \<Rightarrow> int \<Rightarrow> int \<Rightarrow> string option list" where
  "edges_from rownames aa d nTFs = map (r_index rownames) (tfIdsTop aa d nTFs)"

text \<open>
  The position in column-major storage of the entry in row \<open>tf\<close> and column \<open>gene\<close> of
  a matrix with \<open>nTFs\<close> rows (all 1-based).
\<close>

definition linear_index :: "int \<Rightarrow> int \<Rightarrow> int \<Rightarrow> int" where
  "linear_index nTFs tf gene = (gene - 1) * nTFs + tf"

section \<open>Running a notebook\<close>

text \<open>
  The cells call library routines whose code is not part of the repository. The
  library is a parameter of the run: it executes an assignment, expression statement or
  import in a state (and either fails with an error or yields the next state), decides
  the condition of a branch, lists the values a loop runs over, and binds the loop
  variable. The statements themselves run as their languages prescribe: in sequence,
  stopping at the first error; a branch runs one of its blocks; a loop runs its body
  once per value; a \<^verbatim>\<open>try\<close> runs its handler when its body has failed.

  A run returns the errors the library raised, in order, and the outcome: the final
  state, or the error that reached the top with the state it was raised in.
\<close>

record ('s, 'v, 'e) library =
  lib_step :: "stmt \<Rightarrow> 's \<Rightarrow> 'e + 's"
  lib_test :: "expr \<Rightarrow> 's \<Rightarrow> 'e + bool"
  lib_elements :: "expr \<Rightarrow> 's \<Rightarrow> 'e + 'v list"
  lib_bind :: "string \<Rightarrow> 'v \<Rightarrow> 's \<Rightarrow> 's"

datatype ('e, 's) outcome = Done 's | Raised 'e 's

definition step_outcome ::
  "('s, 'v, 'e) library \<Rightarrow> stmt \<Rightarrow> 's \<Rightarrow> 'e list \<times> ('e, 's) outcome" where
  "step_outcome L x s =
     (case lib_step L x s of Inl e \<Rightarrow> ([e], Raised e s) | Inr s' \<Rightarrow> ([], Done s'))"

text \<open>What follows a block: nothing after an error, the continuation otherwise.\<close>

fun and_then ::
  "'e list \<times> ('e, 's) outcome \<Rightarrow> ('s \<Rightarrow> 'e list \<times> ('e, 's) outcome) \<Rightarrow>
   'e list \<times> ('e, 's) outcome" where
  "and_then (es, Raised e s) k = (es, Raised e s)"
| "and_then (es, Done s) k = (case k s of (es', r) \<Rightarrow> (es @ es', r))"

text \<open>What follows the body of a \<^verbatim>\<open>try\<close>: the handler after an error.\<close>

fun or_else ::
  "'e list \<times> ('e, 's) outcome \<Rightarrow> ('s \<Rightarrow> 'e list \<times> ('e, 's) outcome) \<Rightarrow>
   'e list \<times> ('e, 's) outcome" where
  "or_else (es, Raised e s) k = (case k s of (es', r) \<Rightarrow> (es @ es', r))"
| "or_else (es, Done s) k = (es, Done s)"

lemma and_then_cong [fundef_cong]:
  "r = r' \<Longrightarrow> (\<And>es s. r' = (es, Done s) \<Longrightarrow> k s = k' s) \<Longrightarrow> and_then r k = and_then r' k'"
  by (cases r'; cases "snd r'") auto

lemma or_else_cong [fundef_cong]:
  "r = r' \<Longrightarrow> (\<And>es e s. r' = (es, Raised e s) \<Longrightarrow> k s = k' s) \<Longrightarrow>
   or_else r k = or_else r' k'"
  by (cases r'; cases "snd r'") auto

fun run :: "('s, 'v, 'e) library \<Rightarrow> stmt \<Rightarrow> 's \<Rightarrow> 'e list \<times> ('e, 's) outcome"
  and run_block :: "('s, 'v, 'e) library \<Rightarrow> stmt list \<Rightarrow> 's \<Rightarrow> 'e list \<times> ('e, 's) outcome"
  and run_loop ::
    "('s, 'v, 'e) library \<Rightarrow> string \<Rightarrow> 'v list \<Rightarrow> stmt list \<Rightarrow> 's \<Rightarrow> 'e list \<times> ('e, 's) outcome"
where
  "run L (Assign t v) s = step_outcome L (Assign t v) s"
| "run L (Expr e) s = step_outcome L (Expr e) s"
| "run L (Import m ns) s = step_outcome L (Import m ns) s"
| "run L (If c a b) s =
     (case lib_test L c s of
        Inl e \<Rightarrow> ([e], Raised e s)
      | Inr t \<Rightarrow> if t then run_block L a s else run_block L b s)"
| "run L (For v e b) s =
     (case lib_elements L e s of
        Inl x \<Rightarrow> ([x], Raised x s)
      | Inr vs \<Rightarrow> run_loop L v vs b s)"
| "run L (Try a h) s = or_else (run_block L a s) (run_block L h)"
| "run_block L [] s = ([], Done s)"
| "run_block L (x # xs) s = and_then (run L x s) (run_block L xs)"
| "run_loop L v [] b s = ([], Done s)"
| "run_loop L v (x # xs) b s =
     and_then (run_block L b (lib_bind L v x s)) (run_loop L v xs b)"

text \<open>A program without a \<^verbatim>\<open>try\<close> statement anywhere in it.\<close>

definition try_free :: "stmt list \<Rightarrow> bool" where
  "try_free p = (\<not> list_ex is_try (concat (map substmts p)))"

text \<open>
  The statement of error propagation: the errors raised by the library during the
  run are none when the run is done, and just the one that reached the top otherwise.
\<close>

fun propagated :: "'e list \<times> ('e, 's) outcome \<Rightarrow> bool" where
  "propagated (es, Done s) = (es = [])"
| "propagated (es, Raised e s) = (es = [e])"

text \<open>
  A library for a test run of the DRAGON notebook: every statement succeeds and is
  counted, but for the p-value estimation, which fails.
\<close>

definition failing_library :: "(nat, unit, string) library" where
  "failing_library =
     \<lparr>lib_step = (\<lambda>x s. if calls_any [''estimate_p_values_dragon''] [x]
                         then Inl ''dimension mismatch'' else Inr (Suc s)),
      lib_test = (\<lambda>c s. Inr True),
      lib_elements = (\<lambda>e s. Inr []),
      lib_bind = (\<lambda>v x s. s)\<rparr>"

section \<open>Properties of the notebooks' syntax\<close>

text \<open>
  Claim C2 says that no code cell of either notebook contains a conditional branch or a
  loop. The PANDA notebook refutes it: cell 3 (\<^verbatim>\<open>if(runserver==0){...}\<close>) contains a
  branch and cell 71 (\<^verbatim>\<open>for (j in 1:length(a)){...}\<close>) a loop.
\<close>

theorem panda_has_branch_and_loop:
  "(3, panda_c3) \<in> set panda_notebook \<and> has_branch panda_c3
   \<and> (71, panda_c71) \<in> set panda_notebook \<and> has_loop panda_c71"
  by code_simp

text \<open>
  Claim C2, amended: no code cell of the DRAGON notebook contains a branch or a loop;
  in the PANDA notebook exactly the cells 3, 5 and 71 contain a branch, exactly cell 71
  contains a loop, and every other code cell is a straight sequence of statements.
\<close>

theorem control_flow_of_the_notebooks:
  "cells_where has_control_flow dragon_notebook = []
   \<and> cells_where has_branch panda_notebook = [3, 5, 71]
   \<and> cells_where has_loop panda_notebook = [71]
   \<and> cells_where has_control_flow panda_notebook = [3, 5, 71]"
  by code_simp

text \<open>
  Claim C1 says that every computational step of every code cell is a single call of a
  library routine, with no index arithmetic, string processing or data transformation
  written by hand. Cell 39 of the PANDA notebook refutes it: it computes row and column
  indices with \<^verbatim>\<open>%/%\<close>, \<^verbatim>\<open>%%\<close>, \<^verbatim>\<open>+\<close> and a comparison; and cell 71 shortens the
  signature names in loops of its own.
\<close>

theorem panda_edges_cell_does_index_arithmetic:
  "(39, panda_c39) \<in> set panda_notebook
   \<and> operators panda_c39 = [''+'', ''%/%'', ''%%'', ''=='']
   \<and> has_index_arithmetic panda_c39
   \<and> (71, panda_c71) \<in> set panda_notebook
   \<and> loop_calls panda_c71 = [''substr'', ''nchar'', ''nchar'', ''paste'', ''substr'']"
  by code_simp

text \<open>
  Claim C1, amended: every code cell of the DRAGON notebook consists of imports,
  assignments, indexing, attribute access and calls of library routines only. In the
  PANDA notebook this holds for all code cells but 3, 5, 15, 17, 19, 23, 27, 39, 41, 45,
  47, 49, 65, 71, 73, 75 and 79, which apply operators, branch, loop or define a
  function themselves: cells 39 and 47 do index arithmetic with \<^verbatim>\<open>%/%\<close> and \<^verbatim>\<open>%%\<close>,
  cell 17 defines a function, and cell 71 processes strings in two loops.
\<close>

theorem logic_written_in_the_cells:
  "cells_where has_own_logic dragon_notebook = []
   \<and> cells_where has_own_logic panda_notebook =
       [3, 5, 15, 17, 19, 23, 27, 39, 41, 45, 47, 49, 65, 71, 73, 75, 79]
   \<and> cells_where has_index_arithmetic panda_notebook = [39, 47]
   \<and> cells_where defines_function panda_notebook = [17]
   \<and> cells_where has_loop panda_notebook = [71]
   \<and> loop_calls panda_c71 = [''substr'', ''nchar'', ''nchar'', ''paste'', ''substr'']"
  by code_simp

text \<open>
  Claim C3 says that each notebook calls at most two library analysis functions between
  loading or simulating its data and visualising the results. Both notebooks call more
  than two different ones.
\<close>

theorem more_than_two_analysis_functions:
  "\<not> length (remdups (analysis_calls dragon_notebook)) \<le> 2
   \<and> \<not> length (remdups (analysis_calls panda_notebook)) \<le> 2"
  by code_simp

text \<open>
  Claim C3, amended: the DRAGON notebook calls three library analysis functions (in
  cells 9, 13 and 16) after simulating its data in cell 5 and before its last figures
  in cells 19 and 21; the PANDA notebook makes eight calls of four library analysis
  functions (in cells 29, 31, 53, 55, 57 and 63) after its first data load in cell 9
  and before its last figure in cell 79.
\<close>

theorem analysis_functions_called:
  "analysis_calls dragon_notebook =
     [''estimate_penalty_parameters_dragon'', ''get_partial_correlation_dragon'',
      ''estimate_p_values_dragon'']
   \<and> cells_where (calls_any data_routines) dragon_notebook = [5]
   \<and> cells_where (calls_any analysis_routines) dragon_notebook = [9, 13, 16]
   \<and> cells_where (calls_any display_routines) dragon_notebook = [11, 19, 21]
   \<and> analysis_calls panda_notebook =
     [''panda'', ''panda'', ''calcDegree'', ''calcDegree'', ''calcDegree'', ''calcDegree'',
      ''calcDegreeDifference'', ''fgsea'']
   \<and> length (remdups (analysis_calls panda_notebook)) = 4
   \<and> cells_where (calls_any data_routines) panda_notebook = [9, 11, 13, 21, 25, 59, 61]
   \<and> cells_where (calls_any analysis_routines) panda_notebook = [29, 31, 53, 55, 57, 63]
   \<and> cells_where (calls_any display_routines) panda_notebook = [43, 51, 79]"
  by code_simp

text \<open>
  Claim C8: the files read are the seven files of the PANDA notebook (motif, PPI and
  expression tables and two lists of sample ids read with \<^verbatim>\<open>read.delim\<close>, a GMT
  pathway file read with \<^verbatim>\<open>gmtPathways\<close>, and a ranked gene list \<^verbatim>\<open>.rnk\<close> read
  with \<^verbatim>\<open>read.delim\<close>); the DRAGON notebook reads no file, its only data routine
  being the simulation called in cell 5.
\<close>

theorem files_read_by_the_notebooks:
  "files_read panda_notebook =
     [(''read.delim'', ''motif_subset.txt''),
      (''read.delim'', ''ppi_subset.txt''),
      (''read.delim'', ''expression_tpm_lcl_blood_subset.txt''),
      (''read.delim'', ''LCL_samples.txt''),
      (''read.delim'', ''WholeBlood_samples.txt''),
      (''gmtPathways'', ''c2.cp.kegg.v7.0.symbols.gmt''),
      (''read.delim'', ''lclWB_indegreeDifference.rnk'')]
   \<and> length (files_read panda_notebook) = 7
   \<and> distinct (map snd (files_read panda_notebook))
   \<and> files_read dragon_notebook = []
   \<and> cells_where (calls_any data_routines) dragon_notebook = [5]
   \<and> calls dragon_c5 = [''simulate_dragon_data'']"
  by code_simp

text \<open>
  The libraries loaded: the DRAGON notebook imports four modules; the PANDA notebook
  attaches five packages in cell 7 and \<^verbatim>\<open>devtools\<close> in the branch of cell 3. None of
  them is a library for threads, processes or asynchronous tasks, and no routine of
  that kind is called.
\<close>

theorem libraries_loaded_by_the_notebooks:
  "libraries dragon_notebook =
     [''netZooPy.dragon'', ''matplotlib.pyplot'', ''numpy'', ''mpl_toolkits.mplot3d'']
   \<and> libraries panda_notebook =
     [''devtools'', ''netZooR'', ''fgsea'', ''ggplot2'', ''reshape2'', ''visNetwork'']
   \<and> filter (List.member concurrency_libraries)
         (libraries dragon_notebook @ libraries panda_notebook) = []
   \<and> cells_where (calls_any concurrency_routines) dragon_notebook = []
   \<and> cells_where (calls_any concurrency_routines) panda_notebook = []"
  by code_simp

section \<open>Properties of the DRAGON notebook's data flow\<close>

text \<open>
  Claim C4: the data are simulated with \<^verbatim>\<open>p1=100\<close> and \<^verbatim>\<open>p2=500\<close>, so that the layers
  \<^verbatim>\<open>X1\<close> and \<^verbatim>\<open>X2\<close> from which the partial correlations are computed have 100 and 500
  columns, while \<^verbatim>\<open>estimate_p_values_dragon\<close> receives these partial correlations with
  \<^verbatim>\<open>n = 1000\<close>, \<^verbatim>\<open>p1 = 500\<close> and \<^verbatim>\<open>p2 = 100\<close>, the values assigned in cell 3: its
  \<^verbatim>\<open>p1\<close> and \<^verbatim>\<open>p2\<close> are the column counts of the layers, swapped.
\<close>

theorem p_value_dimensions_swapped:
  "simulated_dimensions dragon_notebook = [([Num 100], [Num 500])]
   \<and> layer_columns dragon_notebook = [(Some 100, Some 500)]
   \<and> handover_routine ''estimate_p_values_dragon'' dragon_notebook
       = [[[''get_partial_correlation_dragon''], []]]
   \<and> p_value_dimensions dragon_notebook = [(Num 1000, Num 500, Num 100)]"
  by code_simp

section \<open>What the analysis routines are handed\<close>

text \<open>
  Claim C6 says that every table passed to a library analysis function is handed over
  exactly as produced, with no preconditioning by the notebook. The expression table
  that the PANDA notebook passes to \<^verbatim>\<open>panda\<close> (its second argument, in both calls)
  refutes it.
\<close>

theorem panda_expression_not_as_produced:
  "handover ''panda'' panda_notebook = [[True, False, True], [True, False, True]]"
  by code_simp

text \<open>
  Claim C6, amended. In the PANDA notebook the motif and PPI tables reach \<^verbatim>\<open>panda\<close> as
  \<^verbatim>\<open>read.delim\<close> produced them, the networks reach \<^verbatim>\<open>calcDegree\<close> and
  \<^verbatim>\<open>calcDegreeDifference\<close> as \<^verbatim>\<open>panda\<close> produced them, and the pathways reach
  \<^verbatim>\<open>fgsea\<close> as \<^verbatim>\<open>gmtPathways\<close> produced them; but the expression table is conditioned
  by the notebook before each call of \<^verbatim>\<open>panda\<close> (with the operators \<^verbatim>\<open>+\<close>, \<^verbatim>\<open>!\<close>,
  \<^verbatim>\<open>&\<close>, \<^verbatim>\<open>!=\<close>, \<^verbatim>\<open>>\<close> and \<^verbatim>\<open>%in%\<close>: the logarithm of the table plus one, rows by
  their count of valid entries, columns by sample id), and the ranked list is rebuilt
  with \<^verbatim>\<open>setNames\<close> before \<^verbatim>\<open>fgsea\<close>. In the DRAGON notebook the two layers reach the
  estimation routines through \<^verbatim>\<open>Scale\<close>; the partial correlations and the penalties
  are handed on as produced.
\<close>

theorem tables_handed_to_the_analysis_routines:
  "handover ''estimate_penalty_parameters_dragon'' dragon_notebook = [[False, False]]
   \<and> handover_routine ''estimate_penalty_parameters_dragon'' dragon_notebook
       = [[[''Scale''], [''Scale'']]]
   \<and> handover ''get_partial_correlation_dragon'' dragon_notebook = [[False, False, True]]
   \<and> handover_routine ''get_partial_correlation_dragon'' dragon_notebook
       = [[[''Scale''], [''Scale''], []]]
   \<and> handover ''estimate_p_values_dragon'' dragon_notebook = [[True, True]]
   \<and> handover ''panda'' panda_notebook = [[True, False, True], [True, False, True]]
   \<and> handover_operators ''panda'' panda_notebook
       = [[[], [''%in%'', ''>'', ''+'', ''&'', ''!'', ''!=''], []],
          [[], [''%in%'', ''>'', ''+'', ''&'', ''!'', ''!=''], []]]
   \<and> handover ''calcDegree'' panda_notebook = [[True], [True], [True], [True]]
   \<and> handover ''calcDegreeDifference'' panda_notebook = [[True, True]]
   \<and> handover ''fgsea'' panda_notebook = [[True, False]]
   \<and> handover_routine ''fgsea'' panda_notebook = [[[''gmtPathways''], [''setNames'']]]"
  by code_simp

section \<open>Properties of the computations in the PANDA notebook\<close>

subsection \<open>Rows kept by the expression filter\<close>

lemma r_subset_valid_mask:
  "r_subset None x (valid_mask x) = filter (\<lambda>v. v \<noteq> None \<and> v \<noteq> Some 0) x"
proof (induction x)
  case Nil
  then show ?case by (simp add: valid_mask_def)
next
  case (Cons v x)
  then show ?case
    by (cases v) (auto simp: valid_mask_def r_is_na_def)
qed

lemma count_valid_entries: "count_valid x = int (valid_entries x)"
  by (simp add: count_valid_def valid_entries_def r_subset_valid_mask)

lemma r_subset_decided: "r_subset na xs (map (\<lambda>x. Some (P x)) xs) = filter P xs"
  by (induction xs) auto

lemma keep_valid_rows_filter: "keep_valid_rows exp = filter (\<lambda>x. 20 < valid_entries x) exp"
proof -
  have "map (\<lambda>c. r_greater (Some c) 20) (zero_na_counts exp)
        = map (\<lambda>x. Some (20 < valid_entries x)) exp"
    by (simp add: zero_na_counts_def count_valid_entries)
  then show ?thesis
    by (simp add: keep_valid_rows_def r_subset_decided)
qed

text \<open>
  Claim C9: \<^verbatim>\<open>zero_na_counts\<close> holds, for each row, the number of its entries that are
  neither \<^verbatim>\<open>NA\<close> nor zero; the rows kept are, in their order, those with more than 20
  such entries; and a row with exactly 20 of them is removed.
\<close>

theorem rows_kept_have_more_than_20_valid_entries:
  "zero_na_counts exp = map (\<lambda>x. int (valid_entries x)) exp
   \<and> keep_valid_rows exp = filter (\<lambda>x. 20 < valid_entries x) exp
   \<and> (\<forall>x \<in> set exp. x \<in> set (keep_valid_rows exp) \<longleftrightarrow> 20 < valid_entries x)
   \<and> (\<forall>x. valid_entries x = 20 \<longrightarrow> x \<notin> set (keep_valid_rows exp))"
  by (auto simp: keep_valid_rows_filter zero_na_counts_def count_valid_entries)

text \<open>
  Witness for C9: of a row with 20 valid entries (and one \<^verbatim>\<open>NA\<close> and one zero) and a
  row with 21, only the second is kept.
\<close>

theorem rows_kept_witness:
  "valid_entries (replicate 20 (Some (1::int)) @ [None, Some 0]) = 20
   \<and> replicate 20 (Some (1::int)) @ [None, Some 0]
       \<notin> set (keep_valid_rows
           [replicate 20 (Some 1) @ [None, Some 0], replicate 21 (Some 1)])
   \<and> keep_valid_rows [replicate 20 (Some (1::int)) @ [None, Some 0], replicate 21 (Some 1)]
       = [replicate 21 (Some 1)]"
proof -
  let ?r = "replicate 20 (Some (1::int)) @ [None, Some 0]"
  let ?exp = "[?r, replicate 21 (Some (1::int))]"
  note inst = rows_kept_have_more_than_20_valid_entries [of ?exp]
  have h: "valid_entries ?r = 20"
    by code_simp
  have "\<forall>x. valid_entries x = 20 \<longrightarrow> x \<notin> set (keep_valid_rows ?exp)"
    using inst by (rule conjunct2 [OF conjunct2 [OF conjunct2]])
  with h have gone: "?r \<notin> set (keep_valid_rows ?exp)"
    by blast
  have "keep_valid_rows ?exp = filter (\<lambda>x. 20 < valid_entries x) ?exp"
    using inst by (rule conjunct1 [OF conjunct2])
  also have "\<dots> = [replicate 21 (Some 1)]"
    by code_simp
  finally have kept: "keep_valid_rows ?exp = [replicate 21 (Some 1)]" .
  from h gone kept show ?thesis by (intro conjI)
qed

subsection \<open>Indices of the top edges\<close>

text \<open>
  Claim C5: for a position \<open>L = aa ! i\<close> in a matrix with \<open>nTFs\<close> rows that is a
  multiple of \<open>nTFs\<close>, the cell computes the row index \<open>nTFs\<close> and the column index
  \<open>L div nTFs + 1\<close>, which are the indices of position \<open>L + nTFs\<close>; the computed indices
  are those of \<open>L\<close> exactly when \<open>L\<close> is not a multiple of \<open>nTFs\<close>; and for the last
  position of the matrix the column index is one past the last column, where
  \<^verbatim>\<open>colnames(diffNet)[geneIdsTop]\<close> is \<^verbatim>\<open>NA\<close>.
\<close>

theorem top_edge_indices_at_multiples_of_nTFs:
  assumes "0 < nTFs" and "i < length aa" and "0 < aa ! i"
  shows "(nTFs dvd aa ! i \<longrightarrow>
            tfIdsTop aa nTFs nTFs ! i = nTFs
          \<and> geneIdsTop aa nTFs ! i = aa ! i div nTFs + 1
          \<and> linear_index nTFs (tfIdsTop aa nTFs nTFs ! i) (geneIdsTop aa nTFs ! i)
              = aa ! i + nTFs)
       \<and> (linear_index nTFs (tfIdsTop aa nTFs nTFs ! i) (geneIdsTop aa nTFs ! i) = aa ! i
            \<longleftrightarrow> \<not> nTFs dvd aa ! i)
       \<and> (aa ! i = nTFs * int (length colnames) \<longrightarrow>
            geneIdsTop aa nTFs ! i = int (length colnames) + 1
          \<and> edges_to colnames aa nTFs ! i = None)"
proof -
  let ?L = "aa ! i"
  have tf: "tfIdsTop aa nTFs nTFs ! i = (if ?L mod nTFs = 0 then nTFs else ?L mod nTFs)"
    using assms(2) by (simp add: tfIdsTop_def)
  have gene: "geneIdsTop aa nTFs ! i = ?L div nTFs + 1"
    using assms(2) by (simp add: geneIdsTop_def)
  have to: "edges_to colnames aa nTFs ! i = r_index colnames (?L div nTFs + 1)"
    using assms(2) by (simp add: edges_to_def geneIdsTop_def)
  have multiple: "linear_index nTFs (tfIdsTop aa nTFs nTFs ! i) (geneIdsTop aa nTFs ! i)
      = ?L + nTFs" if "nTFs dvd ?L"
    using that by (simp add: tf gene linear_index_def dvd_eq_mod_eq_0)
  have other: "linear_index nTFs (tfIdsTop aa nTFs nTFs ! i) (geneIdsTop aa nTFs ! i) = ?L"
    if "\<not> nTFs dvd ?L"
    using that by (simp add: tf gene linear_index_def dvd_eq_mod_eq_0)
  have last: "geneIdsTop aa nTFs ! i = int (length colnames) + 1
      \<and> edges_to colnames aa nTFs ! i = None" if "?L = nTFs * int (length colnames)"
    using that assms(1) by (simp add: gene to r_index_def)
  show ?thesis
    using assms(1) multiple other last by (auto simp: tf gene dvd_eq_mod_eq_0)
qed

text \<open>
  Witness for C5: a matrix with 3 rows and the 2 columns \<^verbatim>\<open>geneA\<close> and \<^verbatim>\<open>geneB\<close>, at
  its last position 6: the indices computed are row 3 and column 3, those of position 9,
  and the name of the target gene is \<^verbatim>\<open>NA\<close>.
\<close>

theorem top_edge_indices_witness:
  "(0::int) < 3 \<and> (5::nat) < length [1, 2, 3, 4, 5, 6 :: int] \<and> 0 < [1, 2, 3, 4, 5, 6 :: int] ! 5
   \<and> tfIdsTop [1, 2, 3, 4, 5, 6] 3 3 ! 5 = 3
   \<and> geneIdsTop [1, 2, 3, 4, 5, 6] 3 ! 5 = 3
   \<and> linear_index 3 (tfIdsTop [1, 2, 3, 4, 5, 6] 3 3 ! 5) (geneIdsTop [1, 2, 3, 4, 5, 6] 3 ! 5) = 9
   \<and> edges_to [''geneA'', ''geneB''] [1, 2, 3, 4, 5, 6] 3 ! 5 = None"
proof -
  let ?aa = "[1, 2, 3, 4, 5, 6 :: int]"
  have h1: "(0::int) < 3" and h2: "(5::nat) < length ?aa" and h3: "0 < ?aa ! 5"
    by simp_all
  have d: "(3::int) dvd ?aa ! 5" and l: "?aa ! 5 = 3 * int (length [''geneA'', ''geneB''])"
    by simp_all
  note inst = top_edge_indices_at_multiples_of_nTFs [OF h1 h2 h3, of "[''geneA'', ''geneB'']"]
  from inst d
  have a: "tfIdsTop ?aa 3 3 ! 5 = 3 \<and> geneIdsTop ?aa 3 ! 5 = ?aa ! 5 div 3 + 1
      \<and> linear_index 3 (tfIdsTop ?aa 3 3 ! 5) (geneIdsTop ?aa 3 ! 5) = ?aa ! 5 + 3"
    by blast
  from inst l
  have b: "edges_to [''geneA'', ''geneB''] ?aa 3 ! 5 = None"
    by blast
  from a b h1 h2 h3 show ?thesis by (simp add: linear_index_def)
qed

section \<open>Errors reach the top\<close>

lemma try_free_Cons: "try_free (x # xs) = (try_free [x] \<and> try_free xs)"
  by (auto simp: try_free_def)

lemma try_free_simps:
  "try_free []"
  "try_free [If c a b] = (try_free a \<and> try_free b)"
  "try_free [For v e b] = try_free b"
  "\<not> try_free [Try a h]"
  by (auto simp: try_free_def)

lemma propagated_and_then:
  "propagated r \<Longrightarrow> (\<And>es s. r = (es, Done s) \<Longrightarrow> propagated (k s)) \<Longrightarrow>
   propagated (and_then r k)"
  by (cases r; cases "snd r") (auto split: prod.splits)

lemma propagated_step: "propagated (step_outcome L x s)"
  by (simp add: step_outcome_def split: sum.splits)

text \<open>
  In a program without \<^verbatim>\<open>try\<close>, whatever the library does: a run that is done has seen
  no error, and a run that fails has seen one error, the one it fails with.
\<close>

lemma run_propagates:
  "try_free [x] \<Longrightarrow> propagated (run L x s)"
  "try_free p \<Longrightarrow> propagated (run_block L p s)"
  "try_free b \<Longrightarrow> propagated (run_loop L v vs b s)"
proof (induction L x s and L p s and L v vs b s rule: run_run_block_run_loop.induct)
  case (4 L c a b s)
  then show ?case by (auto simp: try_free_simps split: sum.splits)
next
  case (5 L v e b s)
  then show ?case by (auto simp: try_free_simps split: sum.splits)
next
  case (6 L a h s)
  then show ?case by (simp add: try_free_simps)
next
  case (8 L x xs s)
  then show ?case
    using try_free_Cons [of x xs] by (auto intro!: propagated_and_then)
next
  case (10 L v x xs b s)
  then show ?case by (auto intro!: propagated_and_then)
qed (simp_all add: propagated_step)

lemma notebooks_try_free:
  "try_free (notebook_program dragon_notebook)"
  "try_free (notebook_program panda_notebook)"
  by code_simp+

lemma no_error_handling_cells:
  "cells_where handles_errors dragon_notebook = []"
  "cells_where handles_errors panda_notebook = []"
  by code_simp+

text \<open>
  Claim C7: no code cell of either notebook contains a \<^verbatim>\<open>try\<close> statement or calls a
  routine that handles, signals or retries on errors; and in a run of either notebook,
  with any library and from any state, an error raised by the library is the only one
  raised and is the outcome of the run, with the state it was raised in: nothing of the
  notebook runs after it.
\<close>

theorem library_errors_reach_the_top:
  "cells_where handles_errors dragon_notebook = []
   \<and> cells_where handles_errors panda_notebook = []
   \<and> propagated (run_block L (notebook_program dragon_notebook) s)
   \<and> propagated (run_block L' (notebook_program panda_notebook) s')"
  using no_error_handling_cells notebooks_try_free
  by (simp add: run_propagates(2))

text \<open>
  Witness for C7: when the p-value estimation of the DRAGON notebook fails, the run
  ends with that error after the 25 statements before it.
\<close>

theorem library_errors_reach_the_top_witness:
  "snd (run_block failing_library (notebook_program dragon_notebook) 0)
     = Raised ''dimension mismatch'' 25
   \<and> fst (run_block failing_library (notebook_program dragon_notebook) 0)
     = [''dimension mismatch'']"
proof -
  let ?r = "run_block failing_library (notebook_program dragon_notebook) 0"
  have out: "snd ?r = Raised ''dimension mismatch'' 25"
    by code_simp
  have "propagated ?r"
    using library_errors_reach_the_top [of failing_library 0]
    by (rule conjunct1 [OF conjunct2 [OF conjunct2]])
  then have "propagated (fst ?r, snd ?r)"
    by simp
  then have "fst ?r = [''dimension mismatch'']"
    unfolding out by simp
  with out show ?thesis by blast
qed

end
